theory Spec2Isabelle
  imports Complex_Main "HOL-Library.Char_ord" "HOL-Library.List_Lexorder" "HOL-Library.AList"
    "HOL-Library.Multiset"
begin

section \<open>Values\<close>

text \<open>
  Python floats, as far as the comparisons of the validator and the equality of ids need
  them: a finite float is the rational it denotes (Python compares an int with a float
  exactly), the two infinities, and NaN (which every comparison answers with False).
\<close>

datatype pyfloat = Fin rat | PInf | NInf | NaN

text \<open>
  What \<open>json.load\<close> returns and \<open>json.dump\<close> accepts: None, bool, int, float, str, list,
  and dict with string keys. A dict is an association list read with \<open>map_of\<close>.
\<close>

datatype json =
    JNull
  | JBool bool
  | JInt int
  | JFloat pyfloat
  | JStr string
  | JList "json list"
  | JObj "(string \<times> json) list"

text \<open>\<open>isinstance(v, str)\<close>, \<open>isinstance(v, dict)\<close>, \<open>isinstance(v, list)\<close>.\<close>

fun is_str :: "json \<Rightarrow> bool" where
  "is_str (JStr s) = True"
| "is_str v = False"

fun is_dict :: "json \<Rightarrow> bool" where
  "is_dict (JObj d) = True"
| "is_dict v = False"

fun is_list :: "json \<Rightarrow> bool" where
  "is_list (JList xs) = True"
| "is_list v = False"

text \<open>
  \<open>isinstance(v, (int, float))\<close>: bool is a subclass of int in Python, so True and False
  count as the numbers 1 and 0.
\<close>

fun as_number :: "json \<Rightarrow> pyfloat option" where
  "as_number (JBool b) = Some (Fin (if b then 1 else 0))"
| "as_number (JInt i) = Some (Fin (of_int i))"
| "as_number (JFloat f) = Some f"
| "as_number v = None"

text \<open>Python's \<open>a <= b\<close> on numbers.\<close>

fun num_le :: "pyfloat \<Rightarrow> pyfloat \<Rightarrow> bool" where
  "num_le NaN b = False"
| "num_le a NaN = False"
| "num_le NInf b = True"
| "num_le a PInf = True"
| "num_le PInf b = False"
| "num_le a NInf = False"
| "num_le (Fin x) (Fin y) = (x \<le> y)"

text \<open>Python's \<open>a == b\<close> on numbers.\<close>

fun num_eq :: "pyfloat \<Rightarrow> pyfloat \<Rightarrow> bool" where
  "num_eq NaN b = False"
| "num_eq a NaN = False"
| "num_eq a b = (a = b)"

text \<open>An f-string's \<open>'{field_name}'\<close>: the text between two apostrophes.\<close>

definition quoted :: "string \<Rightarrow> string" where
  "quoted s = CHR 0x27 # s @ [CHR 0x27]"

section \<open>Exceptions\<close>

text \<open>
  The operations on files that the operating system may refuse or interrupt, named after
  the place of the source that performs them.
\<close>

datatype step =
    ReadOpen       \<comment> \<open>\<open>open(self.json_path, 'r')\<close> and the reading of the file in \<open>read\<close>\<close>
  | LiveExists     \<comment> \<open>\<open>self.json_path.exists()\<close> in \<open>_create_backup\<close>\<close>
  | BackupCopy     \<comment> \<open>\<open>shutil.copy(self.json_path, backup_path)\<close>\<close>
  | BackupGlob     \<comment> \<open>\<open>self.backup_dir.glob('assets_*.json')\<close>\<close>
  | LockAcquire    \<comment> \<open>entering \<open>with FileLock(...)\<close>\<close>
  | TempOpen       \<comment> \<open>\<open>open(temp_path, 'w')\<close>\<close>
  | TempDump       \<comment> \<open>\<open>json.dump(data, f, ...)\<close>\<close>
  | TempRead       \<comment> \<open>\<open>open(temp_path, 'r')\<close>\<close>
  | Replace        \<comment> \<open>\<open>temp_path.replace(self.json_path)\<close>\<close>
  | LockRelease    \<comment> \<open>leaving \<open>with FileLock(...)\<close>\<close>
  | BackupExists   \<comment> \<open>\<open>backup_path.exists()\<close> in \<open>write\<close> and in \<open>restore_backup\<close>\<close>
  | RestoreCopy    \<comment> \<open>\<open>shutil.copy(backup_path, self.json_path)\<close>\<close>

text \<open>The messages of the \<open>ValueError\<close>s that \<open>_validate_structure\<close> raises.\<close>

datatype violation =
    RootNotObject            \<comment> \<open>Root must be an object\<close>
  | MissingItems             \<comment> \<open>Missing 'items' key\<close>
  | MissingGameBadges        \<comment> \<open>Missing 'gameBadges' key\<close>
  | ItemsNotList             \<comment> \<open>'items' must be a list\<close>
  | GameBadgesNotList        \<comment> \<open>'gameBadges' must be a list\<close>
  | ItemNotObject nat        \<comment> \<open>Item at index i must be an object\<close>
  | ItemMissingId nat        \<comment> \<open>Item at index i missing 'id'\<close>
  | DuplicateItemId json     \<comment> \<open>Duplicate item ID: id\<close>
  | BadgeNotObject nat       \<comment> \<open>Game badge at index i must be an object\<close>
  | BadgeMissingId nat       \<comment> \<open>Game badge at index i missing 'id'\<close>
  | DuplicateBadgeId json    \<comment> \<open>Duplicate game badge ID: id\<close>

text \<open>
  The exceptions, each a subclass of Python's \<open>Exception\<close>. Those that the program raises
  itself:
  \<^item> \<open>ValueError v\<close>, raised by \<open>_validate_structure\<close>;
  \<^item> \<open>InvalidJSON d\<close>, the \<open>ValueError(f"Invalid JSON in {path}: {e}")\<close> of \<open>read\<close>, where
    \<open>d\<close> is the text of \<open>e\<close>;
  \<^item> \<open>WriteFailed e\<close>, the \<open>Exception(f"Failed to write JSON: {e}")\<close> of \<open>write\<close>;
  \<^item> \<open>BackupNotFound n\<close>, the \<open>FileNotFoundError(f"Backup {n} not found")\<close> of
    \<open>restore_backup\<close>;
  \<^item> \<open>DeleteFailed e\<close>, the \<open>Exception(f"Error deleting file: {e}")\<close> of \<open>delete_file\<close>.

  Those that Python and its libraries raise: \<open>KeyError k\<close> for a missing key \<open>k\<close>,
  \<open>TypeError\<close>, \<open>AttributeError\<close>, \<open>JSONDecodeError d\<close> with the parser's text \<open>d\<close>,
  \<open>UnicodeDecodeError d\<close>, \<open>RecursionError\<close>, \<open>FileNotFoundError n\<close> for a missing file
  \<open>n\<close>, and \<open>OSError d\<close> for any other error of the operating system, with its text \<open>d\<close>.
\<close>

datatype error =
    KeyError string
  | TypeError
  | AttributeError
  | ValueError violation
  | InvalidJSON string
  | JSONDecodeError string
  | UnicodeDecodeError string
  | RecursionError
  | OSError string
  | FileNotFoundError string
  | BackupNotFound string
  | WriteFailed error
  | DeleteFailed error

section \<open>The filesystem under the project root\<close>

text \<open>
  An absolute path is the list of its components below \<open>/\<close>. The tree of assets is
  given by the directories and the files that exist (\<open>/\<close> itself always exists); it has no
  symbolic links, so the entry that a path names is the one it resolves to. When the operating
  system answers a path with an error (a name that is too long, a directory that may not be
  searched) is not derived from the tree: \<open>stat_error\<close> gives the text of the \<open>OSError\<close>
  that examining a path raises, and \<open>unlink_error\<close> of the one that removing it raises.
\<close>

type_synonym path = "string list"

record tree =
  dirs :: "path list"
  files :: "path list"
  stat_error :: "string list \<Rightarrow> string option"
  unlink_error :: "string list \<Rightarrow> string option"

definition is_dir :: "tree \<Rightarrow> path \<Rightarrow> bool" where
  "is_dir t p = (p = [] \<or> p \<in> set (dirs t))"

definition is_file :: "tree \<Rightarrow> path \<Rightarrow> bool" where
  "is_file t p = (p \<in> set (files t))"

text \<open>
  The operating system's path resolution, component by component: a component is looked
  up in a directory that exists; \<open>..\<close> moves to the parent (the parent of \<open>/\<close> is \<open>/\<close>).
  The result is the resolved absolute path, or None when a component does not exist.
\<close>

fun walk :: "tree \<Rightarrow> path \<Rightarrow> string list \<Rightarrow> path option" where
  "walk t cur [] = Some cur"
| "walk t cur (seg # rest) =
     (if \<not> is_dir t cur then None
      else if seg = ''..'' then walk t (butlast cur) rest
      else if is_dir t (cur @ [seg]) \<or> is_file t (cur @ [seg]) then walk t (cur @ [seg]) rest
      else None)"

text \<open>Python's \<open>s.split('/')\<close>.\<close>

fun split_slash :: "string \<Rightarrow> string list" where
  "split_slash [] = [[]]"
| "split_slash (c # cs) =
     (if c = CHR ''/'' then [] # split_slash cs
      else (case split_slash cs of [] \<Rightarrow> [[c]] | w # ws \<Rightarrow> (c # w) # ws))"

text \<open>The components pathlib keeps of a path string: empty ones and \<open>.\<close> are dropped.\<close>

definition components :: "string \<Rightarrow> string list" where
  "components s = filter (\<lambda>w. w \<noteq> [] \<and> w \<noteq> ''.'') (split_slash s)"

text \<open>
  pathlib's \<open>base / rel\<close>: a \<open>rel\<close> that starts with a slash is absolute and replaces
  \<open>base\<close>; \<open>..\<close> components are kept as they are.
\<close>

definition path_join :: "path \<Rightarrow> string \<Rightarrow> string list" where
  "path_join base rel =
     (if rel \<noteq> [] \<and> hd rel = CHR ''/'' then components rel else base @ components rel)"

text \<open>The path that a list of components resolves to, when every component exists.\<close>

definition resolved :: "tree \<Rightarrow> string list \<Rightarrow> path option" where
  "resolved t p = walk t [] p"

text \<open>
  \<open>Path.exists()\<close>: \<open>Inl\<close> the text of the \<open>OSError\<close> it raises, else whether the path exists.
  (Errors that say that the path is not there are answered with False by \<open>exists\<close> itself.)
\<close>

definition path_exists :: "tree \<Rightarrow> string list \<Rightarrow> string + bool" where
  "path_exists t p =
     (case stat_error t p of
        Some message \<Rightarrow> Inl message
      | None \<Rightarrow> Inr (resolved t p \<noteq> None))"

text \<open>A resolved path lies within the project root when the root's path is a prefix of it.\<close>

definition within_root :: "path \<Rightarrow> path \<Rightarrow> bool" where
  "within_root base p = (take (length base) p = base)"

section \<open>Validator\<close>

text \<open>
  \<open>Validator._validate_asset_path(path, field_name)\<close>. The \<open>except\<close> branch is taken when
  \<open>full_path.exists()\<close> raises.
\<close>

definition validate_asset_path :: "tree \<Rightarrow> path \<Rightarrow> json \<Rightarrow> string \<Rightarrow> string list" where
  "validate_asset_path t base_dir p field_name =
     (case p of
        JStr s \<Rightarrow>
          (if s = [] then []
           else if take 6 s \<noteq> ''../../'' then
             [quoted field_name @ '' must be a relative path starting with '' @ quoted ''../../'']
           else (case path_exists t (path_join base_dir (drop 6 s)) of
                   Inl message \<Rightarrow> [quoted field_name @ '' invalid path: '' @ message]
                 | Inr False \<Rightarrow> [quoted field_name @ '' path does not exist: '' @ s]
                 | Inr True \<Rightarrow> []))
      | _ \<Rightarrow> [quoted field_name @ '' must be a string''])"

text \<open>
  A subscript \<open>d[k]\<close> raises KeyError on a missing key; what the validators compute is a list
  of messages, or the exception.
\<close>

definition getitem :: "(string \<times> json) list \<Rightarrow> string \<Rightarrow> error + json" where
  "getitem d k = (case map_of d k of None \<Rightarrow> Inl (KeyError k) | Some v \<Rightarrow> Inr v)"

definition has_key :: "(string \<times> json) list \<Rightarrow> string \<Rightarrow> bool" where
  "has_key d k = (map_of d k \<noteq> None)"

text \<open>
  One check of a validator: the messages it appends to \<open>errors\<close>. \<open>run_checks\<close> runs the
  checks in the order of the source, each appending to the list the earlier ones left.
\<close>

type_synonym check = "error + string list"

definition with_item :: "(string \<times> json) list \<Rightarrow> string \<Rightarrow> (json \<Rightarrow> string list) \<Rightarrow> check" where
  "with_item d k f = (case getitem d k of Inl e \<Rightarrow> Inl e | Inr v \<Rightarrow> Inr (f v))"

fun run_checks :: "string list \<Rightarrow> check list \<Rightarrow> error + string list" where
  "run_checks errors [] = Inr errors"
| "run_checks errors (Inl e # cs) = Inl e"
| "run_checks errors (Inr new # cs) = run_checks (errors @ new) cs"

definition required_fields :: "string list" where
  "required_fields = [''id'', ''name'', ''scientificName'', ''description'',
     ''badgeDescription'', ''location'', ''radiusMeters'', ''icon'', ''model'', ''ping'',
     ''badge'']"

definition missing_errors :: "string list \<Rightarrow> (string \<times> json) list \<Rightarrow> string list" where
  "missing_errors required d =
     concat (map (\<lambda>field. if has_key d field then [] else [''Missing required field: '' @ field])
       required)"

definition check_nonempty_string :: "string \<Rightarrow> json \<Rightarrow> string list" where
  "check_nonempty_string field v =
     (if \<not> is_str v \<or> v = JStr [] then [quoted field @ '' must be a non-empty string'']
      else [])"

definition in_range :: "json \<Rightarrow> int \<Rightarrow> int \<Rightarrow> bool" where
  "in_range v lo hi =
     (case as_number v of None \<Rightarrow> False
      | Some x \<Rightarrow> num_le (Fin (of_int lo)) x \<and> num_le x (Fin (of_int hi)))"

definition check_location :: "json \<Rightarrow> string list" where
  "check_location v =
     (case v of
        JObj loc \<Rightarrow>
          (case (map_of loc ''lat'', map_of loc ''lng'') of
             (Some lat, Some lng) \<Rightarrow>
               (if \<not> in_range lat (- 90) 90
                then [quoted ''location.lat'' @ '' must be between -90 and 90''] else [])
               @ (if \<not> in_range lng (- 180) 180
                  then [quoted ''location.lng'' @ '' must be between -180 and 180''] else [])
           | _ \<Rightarrow>
               [quoted ''location'' @ '' must have '' @ quoted ''lat'' @ '' and '' @ quoted ''lng''])
      | _ \<Rightarrow> [quoted ''location'' @ '' must be an object''])"

definition check_radius :: "json \<Rightarrow> string list" where
  "check_radius v =
     (if (case as_number v of None \<Rightarrow> True | Some x \<Rightarrow> num_le x (Fin 0))
      then [quoted ''radiusMeters'' @ '' must be a positive number'']
      else [])"

definition check_icon :: "tree \<Rightarrow> path \<Rightarrow> json \<Rightarrow> string list" where
  "check_icon t base_dir v =
     (case v of
        JObj icon \<Rightarrow>
          (case (map_of icon ''shadow'', map_of icon ''found'') of
             (Some shadow, Some found) \<Rightarrow>
               validate_asset_path t base_dir shadow ''icon.shadow''
               @ validate_asset_path t base_dir found ''icon.found''
           | _ \<Rightarrow>
               [quoted ''icon'' @ '' must have '' @ quoted ''shadow'' @ '' and ''
                  @ quoted ''found''])
      | _ \<Rightarrow> [quoted ''icon'' @ '' must be an object''])"

definition check_model :: "tree \<Rightarrow> path \<Rightarrow> json \<Rightarrow> string list" where
  "check_model t base_dir v =
     (case v of
        JObj model \<Rightarrow>
          (case map_of model ''url'' of
             None \<Rightarrow> [quoted ''model'' @ '' must have '' @ quoted ''url'']
           | Some url \<Rightarrow> validate_asset_path t base_dir url ''model.url'')
          @ (case map_of model ''usdz'' of
               None \<Rightarrow> []
             | Some usdz \<Rightarrow> validate_asset_path t base_dir usdz ''model.usdz'')
      | _ \<Rightarrow> [quoted ''model'' @ '' must be an object''])"

definition check_badge :: "tree \<Rightarrow> path \<Rightarrow> json \<Rightarrow> string list" where
  "check_badge t base_dir v =
     (case v of
        JObj badge \<Rightarrow>
          (if \<not> has_key badge ''id'' then [quoted ''badge'' @ '' must have '' @ quoted ''id'']
           else [])
          @ (if \<not> has_key badge ''name''
             then [quoted ''badge'' @ '' must have '' @ quoted ''name''] else [])
          @ (case map_of badge ''icon'' of
               None \<Rightarrow> []
             | Some icon \<Rightarrow> validate_asset_path t base_dir icon ''badge.icon'')
      | _ \<Rightarrow> [quoted ''badge'' @ '' must be an object''])"

text \<open>The checks of \<open>validate_item\<close> after the required fields, in the order of the source.\<close>

definition item_checks :: "tree \<Rightarrow> path \<Rightarrow> (string \<times> json) list \<Rightarrow> check list" where
  "item_checks t base_dir item =
     [with_item item ''id'' (check_nonempty_string ''id''),
      with_item item ''name'' (check_nonempty_string ''name''),
      with_item item ''location'' check_location,
      with_item item ''radiusMeters'' check_radius,
      with_item item ''icon'' (check_icon t base_dir),
      with_item item ''model'' (check_model t base_dir),
      with_item item ''badge'' (check_badge t base_dir)]"

text \<open>\<open>Validator.validate_item(item)\<close>.\<close>

definition validate_item :: "tree \<Rightarrow> path \<Rightarrow> (string \<times> json) list \<Rightarrow> error + string list" where
  "validate_item t base_dir item =
     (let errors = missing_errors required_fields item
      in if errors \<noteq> [] then Inr errors
         else run_checks errors (item_checks t base_dir item))"

definition badge_checks :: "tree \<Rightarrow> path \<Rightarrow> (string \<times> json) list \<Rightarrow> check list" where
  "badge_checks t base_dir badge =
     [with_item badge ''id'' (check_nonempty_string ''id''),
      Inr (case map_of badge ''icon'' of
             None \<Rightarrow> []
           | Some icon \<Rightarrow> validate_asset_path t base_dir icon ''icon'')]"

text \<open>\<open>Validator.validate_badge(badge)\<close>.\<close>

definition validate_badge :: "tree \<Rightarrow> path \<Rightarrow> (string \<times> json) list \<Rightarrow> error + string list" where
  "validate_badge t base_dir badge =
     (let errors = missing_errors [''id'', ''name'', ''description''] badge
      in if errors \<noteq> [] then Inr errors
         else run_checks errors (badge_checks t base_dir badge))"

section \<open>File handler\<close>

text \<open>
  \<open>FileHandler.delete_file(file_path)\<close>: the path after the prefix is joined to the project
  root, and a path without the prefix is taken as it is, relative to the working directory
  \<open>cwd\<close>. The result is the returned truth value, or the exception, and the tree afterwards.
  \<open>is_file()\<close> examines the path as \<open>exists()\<close> has just done, so it raises nothing new.
\<close>

definition delete_file :: "tree \<Rightarrow> path \<Rightarrow> path \<Rightarrow> string \<Rightarrow> (error + bool) \<times> tree" where
  "delete_file t base_dir cwd file_path =
     (let full_path =
            (if take 6 file_path = ''../../'' then path_join base_dir (drop 6 file_path)
             else path_join cwd file_path)
      in case path_exists t full_path of
           Inl message \<Rightarrow> (Inl (DeleteFailed (OSError message)), t)
         | Inr False \<Rightarrow> (Inr False, t)
         | Inr True \<Rightarrow>
             (case resolved t full_path of
                None \<Rightarrow> (Inr False, t)
              | Some target \<Rightarrow>
                  if \<not> is_file t target then (Inr False, t)
                  else (case unlink_error t full_path of
                          Some message \<Rightarrow> (Inl (DeleteFailed (OSError message)), t)
                        | None \<Rightarrow> (Inr True, t\<lparr>files := removeAll target (files t)\<rparr>))))"

section \<open>JSON handler\<close>

text \<open>
  The files of \<open>JSONHandler\<close>: the live document \<open>Config.ASSETS_JSON\<close>, the temporary file
  beside it, and the backup directory, a list of file names with their contents. A file
  that is absent is None.
\<close>

record store =
  live :: "string option"
  temp :: "string option"
  backups :: "(string \<times> string) list"

text \<open>
  How a file operation ends: it succeeds, it raises and leaves its destination as it was, or
  it raises and leaves its destination with the content it had written so far.
\<close>

datatype outcome = Ok | Fail error | FailPartial error string

fun raised :: "outcome \<Rightarrow> error option" where
  "raised Ok = None"
| "raised (Fail err) = Some err"
| "raised (FailPartial err part) = Some err"

text \<open>
  What one call of the handler meets: the text of \<open>datetime.now().strftime('%Y%m%d_%H%M%S')\<close>,
  how each file operation of the call ends, the exception, if any, that \<open>unlink\<close> raises
  on a backup of a given name, and the two functions of the \<open>json\<close> library on a file
  opened with \<open>encoding='utf-8'\<close>: \<open>dumps\<close> gives the bytes that \<open>json.dump\<close> writes, and
  \<open>loads\<close> gives the value that \<open>json.load\<close> returns on the bytes of a file, or the
  exception it raises (in decoding the bytes or in parsing the text).
\<close>

record env =
  now :: string
  fault :: "step \<Rightarrow> outcome"
  unlink_fault :: "string \<Rightarrow> error option"
  dumps :: "json \<Rightarrow> string"
  loads :: "string \<Rightarrow> error + json"

definition empty_document :: json where
  "empty_document = JObj [(''items'', JList []), (''gameBadges'', JList [])]"



text \<open>
  A set can hold a value that has a hash: not a list and not a dict. Python's \<open>a == b\<close> on
  such values: None equals None, a string equals the same string, and bools, ints and
  floats are compared as numbers.
\<close>

fun hashable :: "json \<Rightarrow> bool" where
  "hashable (JList xs) = False"
| "hashable (JObj d) = False"
| "hashable v = True"

fun py_eq :: "json \<Rightarrow> json \<Rightarrow> bool" where
  "py_eq JNull JNull = True"
| "py_eq (JStr a) (JStr b) = (a = b)"
| "py_eq a b =
     (case (as_number a, as_number b) of
        (Some x, Some y) \<Rightarrow> num_eq x y
      | _ \<Rightarrow> False)"

text \<open>
  Membership in a set, \<open>x in ids\<close>, holds for a member that is the same object as \<open>x\<close> or
  equals it. The floats of a document are separate objects, except that every \<open>NaN\<close> of a
  document that \<open>json.load\<close> has parsed is the one object that the parser keeps for it: so a
  NaN, which equals nothing, is still found in a set that holds a NaN.
\<close>

definition same_key :: "json \<Rightarrow> json \<Rightarrow> bool" where
  "same_key a b = (py_eq a b \<or> (a = JFloat NaN \<and> b = JFloat NaN))"

text \<open>
  The two loops of \<open>_validate_structure\<close>, over \<open>data['items']\<close> and over
  \<open>data['gameBadges']\<close>: \<open>i\<close> is the index, \<open>seen\<close> the set of ids so far, and the three
  violations are the ones that loop raises. \<open>item['id'] in item_ids\<close> raises TypeError on an
  id without a hash.
\<close>

fun check_records ::
  "(nat \<Rightarrow> violation) \<Rightarrow> (nat \<Rightarrow> violation) \<Rightarrow> (json \<Rightarrow> violation)
     \<Rightarrow> nat \<Rightarrow> json list \<Rightarrow> json list \<Rightarrow> error + unit" where
  "check_records not_object missing_id duplicate i seen [] = Inr ()"
| "check_records not_object missing_id duplicate i seen (record # rest) =
     (case record of
        JObj d \<Rightarrow>
          (case map_of d ''id'' of
             None \<Rightarrow> Inl (ValueError (missing_id i))
           | Some ident \<Rightarrow>
               if \<not> hashable ident then Inl TypeError
               else if list_ex (same_key ident) seen then Inl (ValueError (duplicate ident))
               else check_records not_object missing_id duplicate (Suc i) (ident # seen) rest)
      | _ \<Rightarrow> Inl (ValueError (not_object i)))"

text \<open>\<open>JSONHandler._validate_structure(data)\<close>.\<close>

definition validate_structure :: "json \<Rightarrow> error + unit" where
  "validate_structure data =
     (case data of
        JObj d \<Rightarrow>
          (case map_of d ''items'' of
             None \<Rightarrow> Inl (ValueError MissingItems)
           | Some items \<Rightarrow>
               (case map_of d ''gameBadges'' of
                  None \<Rightarrow> Inl (ValueError MissingGameBadges)
                | Some badges \<Rightarrow>
                    (case items of
                       JList is \<Rightarrow>
                         (case badges of
                            JList bs \<Rightarrow>
                              (case check_records ItemNotObject ItemMissingId DuplicateItemId
                                      0 [] is of
                                 Inl err \<Rightarrow> Inl err
                               | Inr _ \<Rightarrow>
                                   check_records BadgeNotObject BadgeMissingId DuplicateBadgeId
                                     0 [] bs)
                          | _ \<Rightarrow> Inl (ValueError GameBadgesNotList))
                     | _ \<Rightarrow> Inl (ValueError ItemsNotList))))
      | _ \<Rightarrow> Inl (ValueError RootNotObject))"

text \<open>\<open>backup_dir.glob('assets_*.json')\<close> on a file name.\<close>

definition glob_match :: "string \<Rightarrow> bool" where
  "glob_match name =
     (12 \<le> length name \<and> take 7 name = ''assets_''
      \<and> drop (length name - 5) name = ''.json'')"

definition backup_name :: "string \<Rightarrow> string" where
  "backup_name timestamp = ''assets_'' @ timestamp @ ''.json''"

text \<open>
  \<open>sorted(self.backup_dir.glob('assets_*.json'), reverse=True)\<close>, the backups newest first,
  and what follows its first 50 entries: the names to delete.
\<close>

definition backup_listing :: "(string \<times> string) list \<Rightarrow> string list" where
  "backup_listing dir = rev (sort (filter glob_match (map fst dir)))"

definition old_backups :: "(string \<times> string) list \<Rightarrow> string list" where
  "old_backups dir = drop 50 (backup_listing dir)"

text \<open>The loop \<open>for old_backup in backups[50:]: old_backup.unlink()\<close>.\<close>

fun unlink_all :: "env \<Rightarrow> string list \<Rightarrow> store \<Rightarrow> (error + unit) \<times> store" where
  "unlink_all e [] s = (Inr (), s)"
| "unlink_all e (name # names) s =
     (case unlink_fault e name of
        Some err \<Rightarrow> (Inl err, s)
      | None \<Rightarrow> unlink_all e names (s\<lparr>backups := AList.delete name (backups s)\<rparr>))"

text \<open>
  \<open>JSONHandler._create_backup()\<close>: None when there is no live document; else the name of
  the backup. \<open>shutil.copy\<close> replaces a backup that has the same name.
\<close>

definition create_backup :: "env \<Rightarrow> store \<Rightarrow> (error + string option) \<times> store" where
  "create_backup e s =
     (case raised (fault e LiveExists) of
        Some err \<Rightarrow> (Inl err, s)
      | None \<Rightarrow>
          (case live s of
             None \<Rightarrow> (Inr None, s)
           | Some content \<Rightarrow>
               (case fault e BackupCopy of
                  Fail err \<Rightarrow> (Inl err, s)
                | FailPartial err part \<Rightarrow>
                    (Inl err, s\<lparr>backups := AList.update (backup_name (now e)) part (backups s)\<rparr>)
                | Ok \<Rightarrow>
                    (let s1 = s\<lparr>backups :=
                                   AList.update (backup_name (now e)) content (backups s)\<rparr>
                     in case raised (fault e BackupGlob) of
                          Some err \<Rightarrow> (Inl err, s1)
                        | None \<Rightarrow>
                            (case unlink_all e (old_backups (backups s1)) s1 of
                               (Inl err, s2) \<Rightarrow> (Inl err, s2)
                             | (Inr _, s2) \<Rightarrow> (Inr (Some (backup_name (now e))), s2))))))"

text \<open>
  \<open>shutil.copy(backup_path, self.json_path)\<close>, of the backup with the given name: it raises
  FileNotFoundError when there is no such backup.
\<close>

definition copy_backup_to_live :: "env \<Rightarrow> string \<Rightarrow> store \<Rightarrow> (error + unit) \<times> store" where
  "copy_backup_to_live e name s =
     (case map_of (backups s) name of
        None \<Rightarrow> (Inl (FileNotFoundError name), s)
      | Some content \<Rightarrow>
          (case fault e RestoreCopy of
             Ok \<Rightarrow> (Inr (), s\<lparr>live := Some content\<rparr>)
           | Fail err \<Rightarrow> (Inl err, s)
           | FailPartial err part \<Rightarrow> (Inl err, s\<lparr>live := Some part\<rparr>)))"

text \<open>
  The body of the \<open>with FileLock(...)\<close> block of \<open>write\<close>: the temporary file is opened for
  writing (which empties it), the document is dumped into it, it is read back and parsed,
  and it replaces the live document.
\<close>

definition write_body :: "env \<Rightarrow> json \<Rightarrow> store \<Rightarrow> (error + unit) \<times> store" where
  "write_body e data s =
     (case raised (fault e TempOpen) of
        Some err \<Rightarrow> (Inl err, s)
      | None \<Rightarrow>
          (case fault e TempDump of
             Fail err \<Rightarrow> (Inl err, s\<lparr>temp := Some []\<rparr>)
           | FailPartial err part \<Rightarrow> (Inl err, s\<lparr>temp := Some part\<rparr>)
           | Ok \<Rightarrow>
               (let s1 = s\<lparr>temp := Some (dumps e data)\<rparr>
                in case raised (fault e TempRead) of
                     Some err \<Rightarrow> (Inl err, s1)
                   | None \<Rightarrow>
                       (case loads e (dumps e data) of
                          Inl err \<Rightarrow> (Inl err, s1)
                        | Inr _ \<Rightarrow>
                            (case raised (fault e Replace) of
                               Some err \<Rightarrow> (Inl err, s1)
                             | None \<Rightarrow>
                                 (Inr (), s1\<lparr>live := Some (dumps e data), temp := None\<rparr>))))))"

text \<open>
  The \<open>with FileLock(...)\<close> block: the lock is acquired, the body runs, and the lock is
  released however the body ends; a release that raises does so in place of the body's result.
\<close>

definition write_locked :: "env \<Rightarrow> json \<Rightarrow> store \<Rightarrow> (error + unit) \<times> store" where
  "write_locked e data s =
     (case raised (fault e LockAcquire) of
        Some err \<Rightarrow> (Inl err, s)
      | None \<Rightarrow>
          (case write_body e data s of
             (result, s1) \<Rightarrow>
               (case raised (fault e LockRelease) of
                  Some err \<Rightarrow> (Inl err, s1)
                | None \<Rightarrow> (result, s1))))"

text \<open>
  The \<open>except Exception as e\<close> branch of \<open>write\<close>, entered with the exception \<open>cause\<close>:
  \<open>backup_path\<close> is None when there was no live document, and \<open>backup_path.exists()\<close> then
  raises AttributeError. An exception raised in this branch leaves \<open>write\<close> in place of the
  one the branch would raise.
\<close>

definition write_except ::
  "env \<Rightarrow> string option \<Rightarrow> error \<Rightarrow> store \<Rightarrow> (error + unit) \<times> store" where
  "write_except e backup_path cause s =
     (case backup_path of
        None \<Rightarrow> (Inl AttributeError, s)
      | Some name \<Rightarrow>
          (case raised (fault e BackupExists) of
             Some err \<Rightarrow> (Inl err, s)
           | None \<Rightarrow>
               if map_of (backups s) name \<noteq> None then
                 (case copy_backup_to_live e name s of
                    (Inl err, s1) \<Rightarrow> (Inl err, s1)
                  | (Inr _, s1) \<Rightarrow> (Inl (WriteFailed cause), s1))
               else (Inl (WriteFailed cause), s)))"

text \<open>
  \<open>JSONHandler.write(data, validate)\<close> (\<open>write\<close> itself is a keyword of Isabelle). Validation
  and \<open>_create_backup\<close> run before the \<open>try\<close>, so what they raise leaves \<open>write\<close> as it is.
\<close>

definition write_doc :: "env \<Rightarrow> json \<Rightarrow> bool \<Rightarrow> store \<Rightarrow> (error + unit) \<times> store" where
  "write_doc e data validate s =
     (case (if validate then validate_structure data else Inr ()) of
        Inl err \<Rightarrow> (Inl err, s)
      | Inr _ \<Rightarrow>
          (case create_backup e s of
             (Inl err, s1) \<Rightarrow> (Inl err, s1)
           | (Inr backup_path, s1) \<Rightarrow>
               (case write_locked e data s1 of
                  (Inr _, s2) \<Rightarrow> (Inr (), s2)
                | (Inl cause, s2) \<Rightarrow> write_except e backup_path cause s2)))"

text \<open>
  \<open>JSONHandler.restore_backup(backup_name)\<close>, for a \<open>backup_name\<close> that is the name of a file
  in the backup directory (not empty, and without a slash).
\<close>

definition restore_backup :: "env \<Rightarrow> string \<Rightarrow> store \<Rightarrow> (error + unit) \<times> store" where
  "restore_backup e name s =
     (case raised (fault e BackupExists) of
        Some err \<Rightarrow> (Inl err, s)
      | None \<Rightarrow>
          if map_of (backups s) name = None then (Inl (BackupNotFound name), s)
          else (case create_backup e s of
                  (Inl err, s1) \<Rightarrow> (Inl err, s1)
                | (Inr _, s1) \<Rightarrow> copy_backup_to_live e name s1))"

text \<open>
  Calls of \<open>write\<close> one after the other, each with what it meets, its document and its
  \<open>validate\<close> flag; an exception of one call does not stop the later ones.
\<close>

fun writes :: "(env \<times> json \<times> bool) list \<Rightarrow> store \<Rightarrow> store" where
  "writes [] s = s"
| "writes ((e, data, validate) # calls) s = writes calls (snd (write_doc e data validate s))"

section \<open>Examples\<close>

text \<open>
  An example tree: the project root \<open>/srv/app\<close> with one icon below it, and a file
  \<open>/etc/passwd\<close> outside it. A file name of this filesystem has at most 255 characters:
  asked for the name of 256 letters \<open>a\<close> in the project root, the operating system answers
  with the error \<open>ENAMETOOLONG\<close>. No other path is used below that it answers with an error.
\<close>

definition long_name :: string where
  "long_name = replicate 256 CHR ''a''"

definition example_tree :: tree where
  "example_tree =
     \<lparr>dirs = [[''srv''], [''srv'', ''app''], [''srv'', ''app'', ''assets''], [''etc'']],
      files = [[''srv'', ''app'', ''assets'', ''a.svg''], [''etc'', ''passwd'']],
      stat_error =
        (\<lambda>p. if p = [''srv'', ''app'', long_name]
             then Some (''[Errno 36] File name too long: '' @ quoted (''/srv/app/'' @ long_name))
             else None),
      unlink_error = (\<lambda>p. None)\<rparr>"

definition example_root :: path where
  "example_root = [''srv'', ''app'']"

text \<open>
  The texts of the examples, as \<open>json.dump(data, f, indent=2, ensure_ascii=False)\<close> writes
  them: the empty document, and a document with one item.
\<close>

definition nl :: string where
  "nl = [CHR 0x0A]"

definition dq :: "string \<Rightarrow> string" where
  "dq s = CHR 0x22 # s @ [CHR 0x22]"

definition example_doc :: json where
  "example_doc =
     JObj [(''items'', JList [JObj [(''id'', JStr ''fox''), (''name'', JStr ''Fox'')]]),
           (''gameBadges'', JList [])]"

definition empty_text :: string where
  "empty_text =
     concat [''{'', nl,
             ''  '', dq ''items'', '': [],'', nl,
             ''  '', dq ''gameBadges'', '': []'', nl,
             ''}'']"

definition fox_text :: string where
  "fox_text =
     concat [''{'', nl,
             ''  '', dq ''items'', '': ['', nl,
             ''    {'', nl,
             ''      '', dq ''id'', '': '', dq ''fox'', '','', nl,
             ''      '', dq ''name'', '': '', dq ''Fox'', nl,
             ''    }'', nl,
             ''  ],'', nl,
             ''  '', dq ''gameBadges'', '': []'', nl,
             ''}'']"

text \<open>
  The \<open>json\<close> library on the values and the texts of the examples, a table of what Python
  3.11 answers: \<open>json.dump\<close> on the two documents and on \<open>None\<close>; \<open>json.load\<close> on the three
  texts it writes for them, on the text \<open>{items\<close>, on the single byte \<open>0xFF\<close> and on the
  empty text. The last line of each table stands for the values and texts that no example
  uses.
\<close>

definition example_dumps :: "json \<Rightarrow> string" where
  "example_dumps data =
     (if data = empty_document then empty_text
      else if data = example_doc then fox_text
      else ''null'')"

definition example_loads :: "string \<Rightarrow> error + json" where
  "example_loads content =
     (if content = empty_text then Inr empty_document
      else if content = fox_text then Inr example_doc
      else if content = ''null'' then Inr JNull
      else if content = ''{items'' then
        Inl (JSONDecodeError
          ''Expecting property name enclosed in double quotes: line 1 column 2 (char 1)'')
      else if content = [CHR 0xFF] then
        Inl (UnicodeDecodeError
          (quoted ''utf-8'' @ '' codec can't decode byte 0xff in position 0: invalid start byte''))
      else Inl (JSONDecodeError ''Expecting value: line 1 column 1 (char 0)''))"

text \<open>A call at the given time in which no file operation fails.\<close>

definition calm :: "string \<Rightarrow> env" where
  "calm timestamp =
     \<lparr>now = timestamp, fault = (\<lambda>op. Ok), unlink_fault = (\<lambda>name. None),
      dumps = example_dumps, loads = example_loads\<rparr>"




text \<open>
  Sixty timestamps, one per second from 12:00:00 to 12:00:59, in the order of time; a write
  of the example document at each of them; and a store whose backup directory holds the
  backups of the first fifty.
\<close>

definition sixty_stamps :: "string list" where
  "sixty_stamps =
     map (\<lambda>s. ''20240101_1200'' @ s) [[a, b]. a \<leftarrow> ''012345'', b \<leftarrow> ''0123456789'']"

definition sixty_calls :: "(env \<times> json \<times> bool) list" where
  "sixty_calls = map (\<lambda>t. (calm t, example_doc, True)) sixty_stamps"


text \<open>
  Records for the validators: an item that has every required field and a violation in each
  of the seven groups of checks; an item with only an id; an item that is valid but for an
  icon whose \<open>shadow\<close> is a number, once without \<open>found\<close> and once with it; and two badges.
\<close>

definition example_item :: "(string \<times> json) list" where
  "example_item =
     [(''id'', JStr ''''), (''name'', JInt 5), (''scientificName'', JStr ''Vulpes''),
      (''description'', JStr ''''), (''badgeDescription'', JStr ''''),
      (''location'', JObj [(''lat'', JInt 91), (''lng'', JStr ''x'')]),
      (''radiusMeters'', JInt 0),
      (''icon'', JObj [(''shadow'', JStr ''../../assets/missing.svg''),
                       (''found'', JStr ''assets/a.svg'')]),
      (''model'', JObj [(''usdz'', JInt 7)]), (''ping'', JObj []),
      (''badge'', JObj [(''icon'', JStr (''../../'' @ long_name))])]"

definition bare_item :: "(string \<times> json) list" where
  "bare_item = [(''id'', JStr ''fox'')]"

definition item_with_icon :: "json \<Rightarrow> (string \<times> json) list" where
  "item_with_icon icon =
     [(''id'', JStr ''fox''), (''name'', JStr ''Fox''), (''scientificName'', JStr ''Vulpes''),
      (''description'', JStr ''''), (''badgeDescription'', JStr ''''),
      (''location'', JObj [(''lat'', JInt 51), (''lng'', JInt 0)]),
      (''radiusMeters'', JInt 10),
      (''icon'', icon),
      (''model'', JObj [(''url'', JStr ''../../assets/a.svg'')]), (''ping'', JObj []),
      (''badge'', JObj [(''id'', JStr ''fox''), (''name'', JStr ''Fox'')])]"

definition example_badge :: "(string \<times> json) list" where
  "example_badge =
     [(''id'', JStr ''''), (''name'', JStr ''Fox''), (''description'', JStr ''''),
      (''icon'', JStr ''assets/a.svg'')]"

definition bare_badge :: "(string \<times> json) list" where
  "bare_badge = [(''name'', JStr ''Fox'')]"




text \<open>A document whose two items have the same id, a list.\<close>

definition unhashable_doc :: json where
  "unhashable_doc =
     JObj [(''items'', JList [JObj [(''id'', JList [JStr ''a''])],
                              JObj [(''id'', JList [JStr ''a''])]]),
           (''gameBadges'', JList [])]"

section \<open>Asset paths\<close>

lemma split_slash_plain: "CHR ''/'' \<notin> set s \<Longrightarrow> split_slash s = [s]"
  by (induction s) auto

lemma components_long_name: "components long_name = [long_name]"
proof -
  have "CHR ''/'' \<notin> set long_name" by (simp add: long_name_def)
  moreover have "long_name \<noteq> []" "long_name \<noteq> ''.''"
    by (auto simp: long_name_def dest: arg_cong [where f = length])
  ultimately show ?thesis by (simp add: components_def split_slash_plain)
qed

lemma long_name_differs:
  "long_name \<noteq> ''assets''" "long_name \<noteq> ''app''" "long_name \<noteq> ''..''"
  by (auto simp: long_name_def dest: arg_cong [where f = length])

lemma long_name_path: "path_join example_root long_name = [''srv'', ''app'', long_name]"
proof -
  have "hd long_name \<noteq> CHR ''/''" by (simp add: long_name_def hd_replicate)
  then show ?thesis by (simp add: path_join_def example_root_def components_long_name)
qed

lemma long_name_unresolved: "resolved example_tree [''srv'', ''app'', long_name] = None"
  by (simp add: resolved_def example_tree_def is_dir_def is_file_def long_name_differs)

lemma missing_path: "path_join example_root ''assets/missing.svg''
    = [''srv'', ''app'', ''assets'', ''missing.svg'']"
  by (simp add: path_join_def example_root_def components_def)

lemma icon_path: "path_join example_root ''assets/a.svg''
    = [''srv'', ''app'', ''assets'', ''a.svg'']"
  by (simp add: path_join_def example_root_def components_def)

lemma missing_unresolved:
  "resolved example_tree [''srv'', ''app'', ''assets'', ''missing.svg''] = None"
  by (simp add: resolved_def example_tree_def is_dir_def is_file_def)

lemma icon_resolved:
  "resolved example_tree [''srv'', ''app'', ''assets'', ''a.svg'']
     = Some [''srv'', ''app'', ''assets'', ''a.svg'']"
  by (simp add: resolved_def example_tree_def is_dir_def is_file_def)

lemma example_stat_error:
  "stat_error example_tree [''srv'', ''app'', long_name]
     = Some (''[Errno 36] File name too long: '' @ CHR 0x27 # ''/srv/app/'' @ long_name @ [CHR 0x27])"
  "stat_error example_tree [''srv'', ''app'', ''assets'', ''missing.svg''] = None"
  "stat_error example_tree [''srv'', ''app'', ''assets'', ''a.svg''] = None"
  by (simp_all add: example_tree_def quoted_def)

text \<open>
  C7, counterexample. The path \<open>'../../'\<close> followed by 256 letters \<open>a\<close> carries the prefix
  and does not exist in the example tree, yet validation does not say that the path does
  not exist: \<open>exists()\<close> raises the operating system's error, and the \<open>except\<close> branch reports
  it as an invalid path.
\<close>

theorem asset_path_raise_counterexample:
  "take 6 (''../../'' @ long_name) = ''../../''
   \<and> resolved example_tree (path_join example_root (drop 6 (''../../'' @ long_name))) = None
   \<and> validate_asset_path example_tree example_root (JStr (''../../'' @ long_name)) ''icon''
       = [CHR 0x27 # ''icon' invalid path: [Errno 36] File name too long: '/srv/app/''
            @ long_name @ [CHR 0x27]]"
  by (simp add: validate_asset_path_def path_exists_def long_name_path long_name_unresolved
      example_stat_error quoted_def)

text \<open>
  C7, amended. For every asset path and field name, validation returns no error for the empty
  string, and for a non-empty string that does not start with \<open>'../../'\<close> exactly one error,
  saying that the field must be a relative path starting with the prefix. For a string with
  the prefix, the path examined is the project root joined with what follows the prefix:
  when the operating system refuses to examine it, the result is exactly one error that
  names the field and says \<open>invalid path\<close> with the text of the system's error; otherwise it
  is one error that names the field and says that the path does not exist, with the string
  as given, if the path resolves to nothing on the filesystem, and no error if it resolves.
  A value that is not a string gives exactly one error, that the field must be a string.
\<close>

theorem asset_path_validation:
  "validate_asset_path t base_dir (JStr []) field = []
   \<and> (s \<noteq> [] \<and> take 6 s \<noteq> ''../../'' \<longrightarrow>
        validate_asset_path t base_dir (JStr s) field
          = [CHR 0x27 # field @ CHR 0x27 # '' must be a relative path starting with '../../''
               @ [CHR 0x27]])
   \<and> (s \<noteq> [] \<and> take 6 s = ''../../''
        \<and> stat_error t (path_join base_dir (drop 6 s)) = Some message \<longrightarrow>
        validate_asset_path t base_dir (JStr s) field
          = [CHR 0x27 # field @ CHR 0x27 # '' invalid path: '' @ message])
   \<and> (s \<noteq> [] \<and> take 6 s = ''../../''
        \<and> stat_error t (path_join base_dir (drop 6 s)) = None \<longrightarrow>
        validate_asset_path t base_dir (JStr s) field
          = (if resolved t (path_join base_dir (drop 6 s)) = None
             then [CHR 0x27 # field @ CHR 0x27 # '' path does not exist: '' @ s]
             else []))
   \<and> ((\<forall>s'. v \<noteq> JStr s') \<longrightarrow>
        validate_asset_path t base_dir v field
          = [CHR 0x27 # field @ CHR 0x27 # '' must be a string''])"
proof (intro conjI impI)
  show "validate_asset_path t base_dir (JStr []) field = []"
    by (simp add: validate_asset_path_def)
  show "validate_asset_path t base_dir (JStr s) field
          = [CHR 0x27 # field @ CHR 0x27 # '' must be a relative path starting with '../../''
               @ [CHR 0x27]]"
    if "s \<noteq> [] \<and> take 6 s \<noteq> ''../../''"
    using that by (simp add: validate_asset_path_def quoted_def)
  show "validate_asset_path t base_dir (JStr s) field
          = [CHR 0x27 # field @ CHR 0x27 # '' invalid path: '' @ message]"
    if "s \<noteq> [] \<and> take 6 s = ''../../''
        \<and> stat_error t (path_join base_dir (drop 6 s)) = Some message"
    using that by (simp add: validate_asset_path_def path_exists_def quoted_def)
  show "validate_asset_path t base_dir (JStr s) field
          = (if resolved t (path_join base_dir (drop 6 s)) = None
             then [CHR 0x27 # field @ CHR 0x27 # '' path does not exist: '' @ s]
             else [])"
    if "s \<noteq> [] \<and> take 6 s = ''../../''
        \<and> stat_error t (path_join base_dir (drop 6 s)) = None"
    using that by (auto simp: validate_asset_path_def path_exists_def quoted_def)
  show "validate_asset_path t base_dir v field
          = [CHR 0x27 # field @ CHR 0x27 # '' must be a string'']"
    if "\<forall>s'. v \<noteq> JStr s'"
    using that by (cases v) (simp_all add: validate_asset_path_def quoted_def)
qed

theorem asset_path_validation_witness:
  "validate_asset_path example_tree example_root (JStr []) ''icon.shadow'' = []
   \<and> validate_asset_path example_tree example_root (JStr ''assets/a.svg'') ''icon.shadow''
       = [CHR 0x27 # ''icon.shadow' must be a relative path starting with '../../''
            @ [CHR 0x27]]
   \<and> stat_error example_tree (path_join example_root (drop 6 (''../../'' @ long_name))) \<noteq> None
   \<and> validate_asset_path example_tree example_root (JStr (''../../'' @ long_name))
         ''icon.shadow''
       = [CHR 0x27 # ''icon.shadow' invalid path: [Errno 36] File name too long: '/srv/app/''
            @ long_name @ [CHR 0x27]]
   \<and> resolved example_tree (path_join example_root (drop 6 ''../../assets/missing.svg''))
       = None
   \<and> validate_asset_path example_tree example_root (JStr ''../../assets/missing.svg'')
         ''icon.shadow''
       = [CHR 0x27 # ''icon.shadow' path does not exist: ../../assets/missing.svg'']
   \<and> resolved example_tree (path_join example_root (drop 6 ''../../assets/a.svg''))
       = Some [''srv'', ''app'', ''assets'', ''a.svg'']
   \<and> validate_asset_path example_tree example_root (JStr ''../../assets/a.svg'')
         ''icon.shadow'' = []
   \<and> validate_asset_path example_tree example_root (JInt 5) ''icon.shadow''
       = [CHR 0x27 # ''icon.shadow' must be a string'']"
proof -
  note inst = asset_path_validation [where t = example_tree and base_dir = example_root
      and field = "''icon.shadow''"]
  have 1: "validate_asset_path example_tree example_root (JStr ''assets/a.svg'') ''icon.shadow''
       = [CHR 0x27 # ''icon.shadow' must be a relative path starting with '../../''
            @ [CHR 0x27]]"
    using inst [where s = "''assets/a.svg''"] by simp
  have 2: "validate_asset_path example_tree example_root (JStr (''../../'' @ long_name))
         ''icon.shadow''
       = [CHR 0x27 # ''icon.shadow' invalid path: [Errno 36] File name too long: '/srv/app/''
            @ long_name @ [CHR 0x27]]"
    using inst [where s = "''../../'' @ long_name" and message = "''[Errno 36] File name too long: ''
        @ CHR 0x27 # ''/srv/app/'' @ long_name @ [CHR 0x27]"]
    by (simp add: long_name_path example_stat_error)
  have 3: "validate_asset_path example_tree example_root (JStr ''../../assets/missing.svg'')
         ''icon.shadow''
       = [CHR 0x27 # ''icon.shadow' path does not exist: ../../assets/missing.svg'']"
    using inst [where s = "''../../assets/missing.svg''"]
    by (simp add: missing_path example_stat_error missing_unresolved)
  have 4: "validate_asset_path example_tree example_root (JStr ''../../assets/a.svg'')
         ''icon.shadow'' = []"
    using inst [where s = "''../../assets/a.svg''"]
    by (simp add: icon_path example_stat_error icon_resolved)
  have 5: "validate_asset_path example_tree example_root (JInt 5) ''icon.shadow''
       = [CHR 0x27 # ''icon.shadow' must be a string'']"
    using inst [where v = "JInt 5"] by simp
  have 6: "validate_asset_path example_tree example_root (JStr []) ''icon.shadow'' = []"
    using inst by simp
  show ?thesis
    using 1 2 3 4 5 6
    by (simp add: long_name_path example_stat_error missing_path
        missing_unresolved icon_path icon_resolved)
qed

section \<open>Records\<close>

lemma missing_errors_filter:
  "missing_errors required d
     = map (\<lambda>f. ''Missing required field: '' @ f) (filter (\<lambda>f. map_of d f = None) required)"
  by (induction required) (simp_all add: missing_errors_def has_key_def)

lemma with_item_present: "map_of d k = Some v \<Longrightarrow> with_item d k f = Inr (f v)"
  by (simp add: with_item_def getitem_def)

lemma check_nonempty_string_cases:
  "check_nonempty_string ''id'' v
     = (case v of
          JStr s \<Rightarrow> if s = [] then [CHR 0x27 # ''id' must be a non-empty string''] else []
        | _ \<Rightarrow> [CHR 0x27 # ''id' must be a non-empty string''])"
  "check_nonempty_string ''name'' v
     = (case v of
          JStr s \<Rightarrow> if s = [] then [CHR 0x27 # ''name' must be a non-empty string''] else []
        | _ \<Rightarrow> [CHR 0x27 # ''name' must be a non-empty string''])"
  by (cases v; simp add: check_nonempty_string_def quoted_def)+

lemma in_range_cases:
  "in_range v (- 90) 90
     = (case as_number v of
          Some x \<Rightarrow> num_le (Fin (- 90)) x \<and> num_le x (Fin 90) | None \<Rightarrow> False)"
  "in_range v (- 180) 180
     = (case as_number v of
          Some x \<Rightarrow> num_le (Fin (- 180)) x \<and> num_le x (Fin 180) | None \<Rightarrow> False)"
  by (cases "as_number v"; simp add: in_range_def)+

lemma check_location_cases:
  "check_location v
     = (case v of
          JObj loc \<Rightarrow>
            (case (map_of loc ''lat'', map_of loc ''lng'') of
               (Some lat, Some lng) \<Rightarrow>
                 (if (case as_number lat of
                        Some x \<Rightarrow> num_le (Fin (- 90)) x \<and> num_le x (Fin 90) | None \<Rightarrow> False)
                  then [] else [CHR 0x27 # ''location.lat' must be between -90 and 90''])
                 @ (if (case as_number lng of
                          Some x \<Rightarrow> num_le (Fin (- 180)) x \<and> num_le x (Fin 180)
                        | None \<Rightarrow> False)
                    then [] else [CHR 0x27 # ''location.lng' must be between -180 and 180''])
             | _ \<Rightarrow> [CHR 0x27 # ''location' must have 'lat' and 'lng'' @ [CHR 0x27]])
        | _ \<Rightarrow> [CHR 0x27 # ''location' must be an object''])"
proof (cases v)
  case (JObj loc)
  then show ?thesis
    by (cases "map_of loc ''lat''"; cases "map_of loc ''lng''")
      (simp_all add: check_location_def in_range_cases quoted_def)
qed (simp_all add: check_location_def quoted_def)

lemma check_radius_cases:
  "check_radius v
     = (if (case as_number v of Some x \<Rightarrow> \<not> num_le x (Fin 0) | None \<Rightarrow> False) then []
        else [CHR 0x27 # ''radiusMeters' must be a positive number''])"
  by (cases "as_number v") (simp_all add: check_radius_def quoted_def)

lemma check_icon_cases:
  "check_icon t base_dir v
     = (case v of
          JObj icon \<Rightarrow>
            (case (map_of icon ''shadow'', map_of icon ''found'') of
               (Some shadow, Some found) \<Rightarrow>
                 validate_asset_path t base_dir shadow ''icon.shadow''
                 @ validate_asset_path t base_dir found ''icon.found''
             | _ \<Rightarrow> [CHR 0x27 # ''icon' must have 'shadow' and 'found'' @ [CHR 0x27]])
        | _ \<Rightarrow> [CHR 0x27 # ''icon' must be an object''])"
proof (cases v)
  case (JObj icon)
  then show ?thesis
    by (cases "map_of icon ''shadow''"; cases "map_of icon ''found''")
      (simp_all add: check_icon_def quoted_def)
qed (simp_all add: check_icon_def quoted_def)

lemma check_model_cases:
  "check_model t base_dir v
     = (case v of
          JObj model \<Rightarrow>
            (case map_of model ''url'' of
               Some url \<Rightarrow> validate_asset_path t base_dir url ''model.url''
             | None \<Rightarrow> [CHR 0x27 # ''model' must have 'url'' @ [CHR 0x27]])
            @ (case map_of model ''usdz'' of
                 Some usdz \<Rightarrow> validate_asset_path t base_dir usdz ''model.usdz''
               | None \<Rightarrow> [])
        | _ \<Rightarrow> [CHR 0x27 # ''model' must be an object''])"
proof (cases v)
  case (JObj model)
  then show ?thesis
    by (cases "map_of model ''url''"; cases "map_of model ''usdz''")
      (simp_all add: check_model_def quoted_def)
qed (simp_all add: check_model_def quoted_def)

lemma check_badge_cases:
  "check_badge t base_dir v
     = (case v of
          JObj badge \<Rightarrow>
            (if map_of badge ''id'' = None
             then [CHR 0x27 # ''badge' must have 'id'' @ [CHR 0x27]] else [])
            @ (if map_of badge ''name'' = None
               then [CHR 0x27 # ''badge' must have 'name'' @ [CHR 0x27]] else [])
            @ (case map_of badge ''icon'' of
                 Some icon \<Rightarrow> validate_asset_path t base_dir icon ''badge.icon''
               | None \<Rightarrow> [])
        | _ \<Rightarrow> [CHR 0x27 # ''badge' must be an object''])"
proof (cases v)
  case (JObj badge)
  then show ?thesis
    by (cases "map_of badge ''icon''") (simp_all add: check_badge_def has_key_def quoted_def)
qed (simp_all add: check_badge_def quoted_def)

lemma item_missing:
  assumes "filter (\<lambda>f. map_of item f = None)
             [''id'', ''name'', ''scientificName'', ''description'', ''badgeDescription'',
              ''location'', ''radiusMeters'', ''icon'', ''model'', ''ping'', ''badge''] \<noteq> []"
  shows "validate_item t base_dir item
     = Inr (map (\<lambda>f. ''Missing required field: '' @ f)
              (filter (\<lambda>f. map_of item f = None)
                 [''id'', ''name'', ''scientificName'', ''description'', ''badgeDescription'',
                  ''location'', ''radiusMeters'', ''icon'', ''model'', ''ping'', ''badge'']))"
  using assms
  unfolding validate_item_def missing_errors_filter required_fields_def Let_def
  by (simp only: map_is_Nil_conv if_True not_False_eq_True)

lemma item_present:
  assumes "map_of item ''id'' = Some ident" "map_of item ''name'' = Some name"
    "map_of item ''scientificName'' = Some scientific"
    "map_of item ''description'' = Some description"
    "map_of item ''badgeDescription'' = Some badge_description"
    "map_of item ''location'' = Some location" "map_of item ''radiusMeters'' = Some radius"
    "map_of item ''icon'' = Some icon" "map_of item ''model'' = Some model"
    "map_of item ''ping'' = Some ping" "map_of item ''badge'' = Some badge"
  shows "validate_item t base_dir item
     = Inr (check_nonempty_string ''id'' ident @ check_nonempty_string ''name'' name
            @ check_location location @ check_radius radius @ check_icon t base_dir icon
            @ check_model t base_dir model @ check_badge t base_dir badge)"
  using assms
  by (simp add: validate_item_def missing_errors_filter required_fields_def item_checks_def
      with_item_present)

lemma badge_missing:
  assumes "filter (\<lambda>f. map_of badge f = None) [''id'', ''name'', ''description''] \<noteq> []"
  shows "validate_badge t base_dir badge
     = Inr (map (\<lambda>f. ''Missing required field: '' @ f)
              (filter (\<lambda>f. map_of badge f = None) [''id'', ''name'', ''description'']))"
  using assms
  unfolding validate_badge_def missing_errors_filter Let_def
  by (simp only: map_is_Nil_conv if_True not_False_eq_True)

lemma badge_present:
  assumes "map_of badge ''id'' = Some ident" "map_of badge ''name'' = Some name"
    "map_of badge ''description'' = Some description"
  shows "validate_badge t base_dir badge
     = Inr (check_nonempty_string ''id'' ident
            @ (case map_of badge ''icon'' of
                 Some icon \<Rightarrow> validate_asset_path t base_dir icon ''icon''
               | None \<Rightarrow> []))"
  using assms
  by (simp add: validate_badge_def missing_errors_filter badge_checks_def with_item_present)

lemma item_with_icon_fields:
  "map_of (item_with_icon icon) ''id'' = Some (JStr ''fox'')"
  "map_of (item_with_icon icon) ''name'' = Some (JStr ''Fox'')"
  "map_of (item_with_icon icon) ''scientificName'' = Some (JStr ''Vulpes'')"
  "map_of (item_with_icon icon) ''description'' = Some (JStr '''')"
  "map_of (item_with_icon icon) ''badgeDescription'' = Some (JStr '''')"
  "map_of (item_with_icon icon) ''location'' = Some (JObj [(''lat'', JInt 51), (''lng'', JInt 0)])"
  "map_of (item_with_icon icon) ''radiusMeters'' = Some (JInt 10)"
  "map_of (item_with_icon icon) ''icon'' = Some icon"
  "map_of (item_with_icon icon) ''model'' = Some (JObj [(''url'', JStr ''../../assets/a.svg'')])"
  "map_of (item_with_icon icon) ''ping'' = Some (JObj [])"
  "map_of (item_with_icon icon) ''badge''
     = Some (JObj [(''id'', JStr ''fox''), (''name'', JStr ''Fox'')])"
  by (simp_all add: item_with_icon_def)

lemma icon_accepted:
  "validate_asset_path example_tree example_root (JStr ''../../assets/a.svg'') field = []"
  by (simp add: validate_asset_path_def path_exists_def icon_path example_stat_error
      icon_resolved)

lemma item_with_icon_errors:
  "validate_item example_tree example_root (item_with_icon icon)
     = Inr (check_icon example_tree example_root icon)"
  by (simp add: item_present [OF item_with_icon_fields] check_nonempty_string_cases
      check_location_cases check_radius_cases check_model_cases check_badge_cases
      icon_accepted)

text \<open>
  C8, counterexample. An item has every required field and is valid but for its icon, which
  has a \<open>shadow\<close> that is a number and no \<open>found\<close>: the one message returned is that of the
  missing key. That \<open>shadow\<close> is not a string, a violation that is reported as soon as the
  icon has a \<open>found\<close>, is not in the list: within the checks of one field the validator
  stops at the first violation.
\<close>

theorem nested_check_skipped_counterexample:
  "validate_item example_tree example_root (item_with_icon (JObj [(''shadow'', JInt 5)]))
     = Inr [CHR 0x27 # ''icon' must have 'shadow' and 'found'' @ [CHR 0x27]]
   \<and> validate_item example_tree example_root
         (item_with_icon (JObj [(''shadow'', JInt 5), (''found'', JStr '''')]))
     = Inr [CHR 0x27 # ''icon.shadow' must be a string'']"
  by (simp add: item_with_icon_errors check_icon_cases validate_asset_path_def quoted_def)

text \<open>
  C8, amended. \<open>validate_item\<close> returns at once, with exactly one message
  \<open>Missing required field: f\<close> for each absent field \<open>f\<close> of the eleven required ones, in their
  order, when any of them is absent, and performs no other check then; \<open>validate_badge\<close>
  does likewise for \<open>id\<close>, \<open>name\<close> and \<open>description\<close>. When all required fields are present,
  the checks of the fields \<open>id\<close>, \<open>name\<close>, \<open>location\<close>, \<open>radiusMeters\<close>, \<open>icon\<close>, \<open>model\<close> and
  \<open>badge\<close> (for a badge: \<open>id\<close> and \<open>icon\<close>) all run, whatever the earlier ones have found,
  and the result is the list of their messages in this order. Within the checks of one
  field a violation of its structure hides what is nested in it: a \<open>location\<close>, \<open>icon\<close>,
  \<open>model\<close> or \<open>badge\<close> that is not an object gives one message and nothing else, and so does
  a \<open>location\<close> without \<open>lat\<close> or \<open>lng\<close> and an \<open>icon\<close> without \<open>shadow\<close> or \<open>found\<close>; else
  every violation of \<open>lat\<close>, \<open>lng\<close>, of the keys \<open>url\<close>, \<open>id\<close>, \<open>name\<close> and of each asset path
  present is reported.
\<close>

theorem validate_record_accumulates:
  "(filter (\<lambda>f. map_of item f = None)
      [''id'', ''name'', ''scientificName'', ''description'', ''badgeDescription'',
       ''location'', ''radiusMeters'', ''icon'', ''model'', ''ping'', ''badge''] \<noteq> [] \<longrightarrow>
    validate_item t base_dir item
      = Inr (map (\<lambda>f. ''Missing required field: '' @ f)
               (filter (\<lambda>f. map_of item f = None)
                  [''id'', ''name'', ''scientificName'', ''description'', ''badgeDescription'',
                   ''location'', ''radiusMeters'', ''icon'', ''model'', ''ping'', ''badge''])))
   \<and> (map_of item ''id'' = Some ident \<and> map_of item ''name'' = Some name
      \<and> map_of item ''scientificName'' = Some scientific
      \<and> map_of item ''description'' = Some description
      \<and> map_of item ''badgeDescription'' = Some badge_description
      \<and> map_of item ''location'' = Some location
      \<and> map_of item ''radiusMeters'' = Some radius
      \<and> map_of item ''icon'' = Some icon \<and> map_of item ''model'' = Some model
      \<and> map_of item ''ping'' = Some ping \<and> map_of item ''badge'' = Some badge \<longrightarrow>
    validate_item t base_dir item
      = Inr ((case ident of
                JStr s \<Rightarrow> if s = [] then [CHR 0x27 # ''id' must be a non-empty string''] else []
              | _ \<Rightarrow> [CHR 0x27 # ''id' must be a non-empty string''])
             @ (case name of
                  JStr s \<Rightarrow>
                    if s = [] then [CHR 0x27 # ''name' must be a non-empty string''] else []
                | _ \<Rightarrow> [CHR 0x27 # ''name' must be a non-empty string''])
             @ (case location of
                  JObj loc \<Rightarrow>
                    (case (map_of loc ''lat'', map_of loc ''lng'') of
                       (Some lat, Some lng) \<Rightarrow>
                         (if (case as_number lat of
                                Some x \<Rightarrow> num_le (Fin (- 90)) x \<and> num_le x (Fin 90)
                              | None \<Rightarrow> False)
                          then []
                          else [CHR 0x27 # ''location.lat' must be between -90 and 90''])
                         @ (if (case as_number lng of
                                  Some x \<Rightarrow> num_le (Fin (- 180)) x \<and> num_le x (Fin 180)
                                | None \<Rightarrow> False)
                            then []
                            else [CHR 0x27 # ''location.lng' must be between -180 and 180''])
                     | _ \<Rightarrow> [CHR 0x27 # ''location' must have 'lat' and 'lng'' @ [CHR 0x27]])
                | _ \<Rightarrow> [CHR 0x27 # ''location' must be an object''])
             @ (if (case as_number radius of
                      Some x \<Rightarrow> \<not> num_le x (Fin 0) | None \<Rightarrow> False)
                then [] else [CHR 0x27 # ''radiusMeters' must be a positive number''])
             @ (case icon of
                  JObj ic \<Rightarrow>
                    (case (map_of ic ''shadow'', map_of ic ''found'') of
                       (Some shadow, Some found) \<Rightarrow>
                         validate_asset_path t base_dir shadow ''icon.shadow''
                         @ validate_asset_path t base_dir found ''icon.found''
                     | _ \<Rightarrow> [CHR 0x27 # ''icon' must have 'shadow' and 'found'' @ [CHR 0x27]])
                | _ \<Rightarrow> [CHR 0x27 # ''icon' must be an object''])
             @ (case model of
                  JObj mo \<Rightarrow>
                    (case map_of mo ''url'' of
                       Some url \<Rightarrow> validate_asset_path t base_dir url ''model.url''
                     | None \<Rightarrow> [CHR 0x27 # ''model' must have 'url'' @ [CHR 0x27]])
                    @ (case map_of mo ''usdz'' of
                         Some usdz \<Rightarrow> validate_asset_path t base_dir usdz ''model.usdz''
                       | None \<Rightarrow> [])
                | _ \<Rightarrow> [CHR 0x27 # ''model' must be an object''])
             @ (case badge of
                  JObj ba \<Rightarrow>
                    (if map_of ba ''id'' = None
                     then [CHR 0x27 # ''badge' must have 'id'' @ [CHR 0x27]] else [])
                    @ (if map_of ba ''name'' = None
                       then [CHR 0x27 # ''badge' must have 'name'' @ [CHR 0x27]] else [])
                    @ (case map_of ba ''icon'' of
                         Some badge_icon \<Rightarrow>
                           validate_asset_path t base_dir badge_icon ''badge.icon''
                       | None \<Rightarrow> [])
                | _ \<Rightarrow> [CHR 0x27 # ''badge' must be an object''])))
   \<and> (filter (\<lambda>f. map_of game_badge f = None) [''id'', ''name'', ''description''] \<noteq> [] \<longrightarrow>
        validate_badge t base_dir game_badge
          = Inr (map (\<lambda>f. ''Missing required field: '' @ f)
                   (filter (\<lambda>f. map_of game_badge f = None) [''id'', ''name'', ''description''])))
   \<and> (map_of game_badge ''id'' = Some game_badge_id \<and> map_of game_badge ''name'' = Some game_badge_name
      \<and> map_of game_badge ''description'' = Some game_badge_description \<longrightarrow>
        validate_badge t base_dir game_badge
          = Inr ((case game_badge_id of
                    JStr s \<Rightarrow>
                      if s = [] then [CHR 0x27 # ''id' must be a non-empty string''] else []
                  | _ \<Rightarrow> [CHR 0x27 # ''id' must be a non-empty string''])
                 @ (case map_of game_badge ''icon'' of
                      Some game_badge_icon \<Rightarrow> validate_asset_path t base_dir game_badge_icon ''icon''
                    | None \<Rightarrow> [])))"
proof (intro conjI impI)
  assume "filter (\<lambda>f. map_of item f = None)
      [''id'', ''name'', ''scientificName'', ''description'', ''badgeDescription'',
       ''location'', ''radiusMeters'', ''icon'', ''model'', ''ping'', ''badge''] \<noteq> []"
  then show "validate_item t base_dir item
      = Inr (map (\<lambda>f. ''Missing required field: '' @ f)
               (filter (\<lambda>f. map_of item f = None)
                  [''id'', ''name'', ''scientificName'', ''description'', ''badgeDescription'',
                   ''location'', ''radiusMeters'', ''icon'', ''model'', ''ping'', ''badge'']))"
    by (rule item_missing)
next
  assume "map_of item ''id'' = Some ident \<and> map_of item ''name'' = Some name
      \<and> map_of item ''scientificName'' = Some scientific
      \<and> map_of item ''description'' = Some description
      \<and> map_of item ''badgeDescription'' = Some badge_description
      \<and> map_of item ''location'' = Some location
      \<and> map_of item ''radiusMeters'' = Some radius
      \<and> map_of item ''icon'' = Some icon \<and> map_of item ''model'' = Some model
      \<and> map_of item ''ping'' = Some ping \<and> map_of item ''badge'' = Some badge"
  then have "validate_item t base_dir item
     = Inr (check_nonempty_string ''id'' ident @ check_nonempty_string ''name'' name
            @ check_location location @ check_radius radius @ check_icon t base_dir icon
            @ check_model t base_dir model @ check_badge t base_dir badge)"
    by (intro item_present) blast+
  then show "validate_item t base_dir item
      = Inr ((case ident of
                JStr s \<Rightarrow> if s = [] then [CHR 0x27 # ''id' must be a non-empty string''] else []
              | _ \<Rightarrow> [CHR 0x27 # ''id' must be a non-empty string''])
             @ (case name of
                  JStr s \<Rightarrow>
                    if s = [] then [CHR 0x27 # ''name' must be a non-empty string''] else []
                | _ \<Rightarrow> [CHR 0x27 # ''name' must be a non-empty string''])
             @ (case location of
                  JObj loc \<Rightarrow>
                    (case (map_of loc ''lat'', map_of loc ''lng'') of
                       (Some lat, Some lng) \<Rightarrow>
                         (if (case as_number lat of
                                Some x \<Rightarrow> num_le (Fin (- 90)) x \<and> num_le x (Fin 90)
                              | None \<Rightarrow> False)
                          then []
                          else [CHR 0x27 # ''location.lat' must be between -90 and 90''])
                         @ (if (case as_number lng of
                                  Some x \<Rightarrow> num_le (Fin (- 180)) x \<and> num_le x (Fin 180)
                                | None \<Rightarrow> False)
                            then []
                            else [CHR 0x27 # ''location.lng' must be between -180 and 180''])
                     | _ \<Rightarrow> [CHR 0x27 # ''location' must have 'lat' and 'lng'' @ [CHR 0x27]])
                | _ \<Rightarrow> [CHR 0x27 # ''location' must be an object''])
             @ (if (case as_number radius of
                      Some x \<Rightarrow> \<not> num_le x (Fin 0) | None \<Rightarrow> False)
                then [] else [CHR 0x27 # ''radiusMeters' must be a positive number''])
             @ (case icon of
                  JObj ic \<Rightarrow>
                    (case (map_of ic ''shadow'', map_of ic ''found'') of
                       (Some shadow, Some found) \<Rightarrow>
                         validate_asset_path t base_dir shadow ''icon.shadow''
                         @ validate_asset_path t base_dir found ''icon.found''
                     | _ \<Rightarrow> [CHR 0x27 # ''icon' must have 'shadow' and 'found'' @ [CHR 0x27]])
                | _ \<Rightarrow> [CHR 0x27 # ''icon' must be an object''])
             @ (case model of
                  JObj mo \<Rightarrow>
                    (case map_of mo ''url'' of
                       Some url \<Rightarrow> validate_asset_path t base_dir url ''model.url''
                     | None \<Rightarrow> [CHR 0x27 # ''model' must have 'url'' @ [CHR 0x27]])
                    @ (case map_of mo ''usdz'' of
                         Some usdz \<Rightarrow> validate_asset_path t base_dir usdz ''model.usdz''
                       | None \<Rightarrow> [])
                | _ \<Rightarrow> [CHR 0x27 # ''model' must be an object''])
             @ (case badge of
                  JObj ba \<Rightarrow>
                    (if map_of ba ''id'' = None
                     then [CHR 0x27 # ''badge' must have 'id'' @ [CHR 0x27]] else [])
                    @ (if map_of ba ''name'' = None
                       then [CHR 0x27 # ''badge' must have 'name'' @ [CHR 0x27]] else [])
                    @ (case map_of ba ''icon'' of
                         Some badge_icon \<Rightarrow>
                           validate_asset_path t base_dir badge_icon ''badge.icon''
                       | None \<Rightarrow> [])
                | _ \<Rightarrow> [CHR 0x27 # ''badge' must be an object'']))"
    by (simp only: check_nonempty_string_cases check_location_cases check_radius_cases
        check_icon_cases check_model_cases check_badge_cases)
next
  assume "filter (\<lambda>f. map_of game_badge f = None) [''id'', ''name'', ''description''] \<noteq> []"
  then show "validate_badge t base_dir game_badge
          = Inr (map (\<lambda>f. ''Missing required field: '' @ f)
                   (filter (\<lambda>f. map_of game_badge f = None) [''id'', ''name'', ''description'']))"
    by (rule badge_missing)
next
  assume "map_of game_badge ''id'' = Some game_badge_id \<and> map_of game_badge ''name'' = Some game_badge_name
      \<and> map_of game_badge ''description'' = Some game_badge_description"
  then have "validate_badge t base_dir game_badge
     = Inr (check_nonempty_string ''id'' game_badge_id
            @ (case map_of game_badge ''icon'' of
                 Some icon \<Rightarrow> validate_asset_path t base_dir icon ''icon''
               | None \<Rightarrow> []))"
    by (intro badge_present) blast+
  then show "validate_badge t base_dir game_badge
          = Inr ((case game_badge_id of
                    JStr s \<Rightarrow>
                      if s = [] then [CHR 0x27 # ''id' must be a non-empty string''] else []
                  | _ \<Rightarrow> [CHR 0x27 # ''id' must be a non-empty string''])
                 @ (case map_of game_badge ''icon'' of
                      Some game_badge_icon \<Rightarrow> validate_asset_path t base_dir game_badge_icon ''icon''
                    | None \<Rightarrow> []))"
    by (simp only: check_nonempty_string_cases)
qed

theorem validate_record_accumulates_witness:
  "validate_item example_tree example_root bare_item
     = Inr [''Missing required field: name'', ''Missing required field: scientificName'',
            ''Missing required field: description'',
            ''Missing required field: badgeDescription'', ''Missing required field: location'',
            ''Missing required field: radiusMeters'', ''Missing required field: icon'',
            ''Missing required field: model'', ''Missing required field: ping'',
            ''Missing required field: badge'']
   \<and> validate_item example_tree example_root example_item
     = Inr [CHR 0x27 # ''id' must be a non-empty string'',
            CHR 0x27 # ''name' must be a non-empty string'',
            CHR 0x27 # ''location.lat' must be between -90 and 90'',
            CHR 0x27 # ''location.lng' must be between -180 and 180'',
            CHR 0x27 # ''radiusMeters' must be a positive number'',
            CHR 0x27 # ''icon.shadow' path does not exist: ../../assets/missing.svg'',
            CHR 0x27 # ''icon.found' must be a relative path starting with '../../''
              @ [CHR 0x27],
            CHR 0x27 # ''model' must have 'url'' @ [CHR 0x27],
            CHR 0x27 # ''model.usdz' must be a string'',
            CHR 0x27 # ''badge' must have 'id'' @ [CHR 0x27],
            CHR 0x27 # ''badge' must have 'name'' @ [CHR 0x27],
            CHR 0x27 # ''badge.icon' invalid path: [Errno 36] File name too long: '/srv/app/''
              @ long_name @ [CHR 0x27]]
   \<and> validate_badge example_tree example_root bare_badge
     = Inr [''Missing required field: id'', ''Missing required field: description'']
   \<and> validate_badge example_tree example_root example_badge
     = Inr [CHR 0x27 # ''id' must be a non-empty string'',
            CHR 0x27 # ''icon' must be a relative path starting with '../../'' @ [CHR 0x27]]"
proof -
  note absent = validate_record_accumulates [where item = bare_item and t = example_tree
      and base_dir = example_root and ident = JNull and name = JNull and scientific = JNull
      and description = JNull and badge_description = JNull and location = JNull
      and radius = JNull and icon = JNull and model = JNull and ping = JNull and badge = JNull
      and game_badge = bare_badge and game_badge_id = JNull and game_badge_name = JNull
      and game_badge_description = JNull]
  note present = validate_record_accumulates [where item = example_item and t = example_tree
      and base_dir = example_root and ident = "JStr ''''" and name = "JInt 5"
      and scientific = "JStr ''Vulpes''" and description = "JStr ''''"
      and badge_description = "JStr ''''"
      and location = "JObj [(''lat'', JInt 91), (''lng'', JStr ''x'')]"
      and radius = "JInt 0"
      and icon = "JObj [(''shadow'', JStr ''../../assets/missing.svg''),
                        (''found'', JStr ''assets/a.svg'')]"
      and model = "JObj [(''usdz'', JInt 7)]" and ping = "JObj []"
      and badge = "JObj [(''icon'', JStr (''../../'' @ long_name))]"
      and game_badge = example_badge and game_badge_id = "JStr ''''" and game_badge_name = "JStr ''Fox''"
      and game_badge_description = "JStr ''''"]
  have 1: "validate_item example_tree example_root bare_item
     = Inr [''Missing required field: name'', ''Missing required field: scientificName'',
            ''Missing required field: description'',
            ''Missing required field: badgeDescription'', ''Missing required field: location'',
            ''Missing required field: radiusMeters'', ''Missing required field: icon'',
            ''Missing required field: model'', ''Missing required field: ping'',
            ''Missing required field: badge'']"
    using absent [THEN conjunct1] by (simp add: bare_item_def)
  have 2: "validate_item example_tree example_root example_item
     = Inr [CHR 0x27 # ''id' must be a non-empty string'',
            CHR 0x27 # ''name' must be a non-empty string'',
            CHR 0x27 # ''location.lat' must be between -90 and 90'',
            CHR 0x27 # ''location.lng' must be between -180 and 180'',
            CHR 0x27 # ''radiusMeters' must be a positive number'',
            CHR 0x27 # ''icon.shadow' path does not exist: ../../assets/missing.svg'',
            CHR 0x27 # ''icon.found' must be a relative path starting with '../../''
              @ [CHR 0x27],
            CHR 0x27 # ''model' must have 'url'' @ [CHR 0x27],
            CHR 0x27 # ''model.usdz' must be a string'',
            CHR 0x27 # ''badge' must have 'id'' @ [CHR 0x27],
            CHR 0x27 # ''badge' must have 'name'' @ [CHR 0x27],
            CHR 0x27 # ''badge.icon' invalid path: [Errno 36] File name too long: '/srv/app/''
              @ long_name @ [CHR 0x27]]"
    using present [THEN conjunct2, THEN conjunct1]
    by (simp add: example_item_def validate_asset_path_def path_exists_def missing_path
        missing_unresolved long_name_path example_stat_error quoted_def)
  have 3: "validate_badge example_tree example_root bare_badge
     = Inr [''Missing required field: id'', ''Missing required field: description'']"
    using absent [THEN conjunct2, THEN conjunct2, THEN conjunct1] by (simp add: bare_badge_def)
  have 4: "validate_badge example_tree example_root example_badge
     = Inr [CHR 0x27 # ''id' must be a non-empty string'',
            CHR 0x27 # ''icon' must be a relative path starting with '../../'' @ [CHR 0x27]]"
    using present [THEN conjunct2, THEN conjunct2, THEN conjunct2]
    by (simp add: example_badge_def validate_asset_path_def quoted_def)
  show ?thesis using 1 2 3 4 by simp
qed

section \<open>Path resolution\<close>

lemma escape_path:
  "path_join example_root ''../../etc/passwd'' = [''srv'', ''app'', ''..'', ''..'', ''etc'', ''passwd'']"
  by (simp add: path_join_def components_def example_root_def)

lemma escape_resolved:
  "resolved example_tree [''srv'', ''app'', ''..'', ''..'', ''etc'', ''passwd'']
     = Some [''etc'', ''passwd'']"
  by (simp add: resolved_def example_tree_def is_dir_def is_file_def)

lemma escape_no_error:
  "stat_error example_tree [''srv'', ''app'', ''..'', ''..'', ''etc'', ''passwd''] = None"
  "unlink_error example_tree [''srv'', ''app'', ''..'', ''..'', ''etc'', ''passwd''] = None"
  by (simp_all add: example_tree_def)

text \<open>
  C3 does not hold of the code. With the project root \<open>/srv/app\<close>, the path
  \<open>../../../../etc/passwd\<close> carries the prefix and resolves to \<open>/etc/passwd\<close>, outside the
  root: validation accepts it without an error, and \<open>delete_file\<close> deletes the file
  \<open>/etc/passwd\<close> and returns True. Neither function compares the resolved path with the
  project root.
\<close>

theorem traversal_escapes_root:
  "take 6 ''../../../../etc/passwd'' = ''../../''
   \<and> resolved example_tree (path_join example_root (drop 6 ''../../../../etc/passwd''))
       = Some [''etc'', ''passwd'']
   \<and> \<not> within_root example_root [''etc'', ''passwd'']
   \<and> validate_asset_path example_tree example_root (JStr ''../../../../etc/passwd'')
         ''icon.shadow'' = []
   \<and> delete_file example_tree example_root example_root ''../../../../etc/passwd''
       = (Inr True, example_tree\<lparr>files := [[''srv'', ''app'', ''assets'', ''a.svg'']]\<rparr>)"
proof -
  have 1: "\<not> within_root example_root [''etc'', ''passwd'']"
    by (simp add: within_root_def example_root_def)
  have 2: "validate_asset_path example_tree example_root (JStr ''../../../../etc/passwd'')
         ''icon.shadow'' = []"
    by (simp add: validate_asset_path_def path_exists_def escape_path escape_resolved
        escape_no_error)
  have "is_file example_tree [''etc'', ''passwd'']"
    "removeAll [''etc'', ''passwd''] (files example_tree)
       = [[''srv'', ''app'', ''assets'', ''a.svg'']]"
    by (simp_all add: example_tree_def is_file_def)
  then have 3: "delete_file example_tree example_root example_root ''../../../../etc/passwd''
       = (Inr True, example_tree\<lparr>files := [[''srv'', ''app'', ''assets'', ''a.svg'']]\<rparr>)"
    by (simp add: delete_file_def path_exists_def escape_path escape_resolved escape_no_error)
  show ?thesis using 1 2 3 by (simp add: escape_path escape_resolved)
qed

section \<open>Reading the document\<close>






section \<open>Validation before writing\<close>

lemma write_doc_rejected:
  "validate_structure data = Inl err \<Longrightarrow> write_doc e data True s = (Inl err, s)"
  by (simp add: write_doc_def)

text \<open>
  C2 does not hold of the code. A document whose two items have the same id, the list
  \<open>["a"]\<close>, violates the structural invariant, and \<open>write\<close> with validation leaves every file as
  it was; but what it raises is not the ValueError of a duplicate id: the membership test
  of \<open>_validate_structure\<close> raises TypeError on the first item, whose id has no hash.
\<close>

theorem unhashable_id_type_error:
  "validate_structure unhashable_doc = Inl TypeError
   \<and> write_doc e unhashable_doc True s = (Inl TypeError, s)"
proof -
  have "validate_structure unhashable_doc = Inl TypeError"
    by (simp add: validate_structure_def unhashable_doc_def)
  then show ?thesis by (simp add: write_doc_rejected)
qed

end
